theory Spec2Isabelle
  imports Complex_Main
begin

section \<open>JavaScript values read by the handlers\<close>

text \<open>
  A JavaScript number. The relay only compares numbers, tests them for truthiness and
  stores them in a \<open>Set\<close>, so a finite number is represented by its exact value;
  \<open>-0\<close> is identified with \<open>0\<close> (they are equal under \<open>===\<close> and under the
  \<open>SameValueZero\<close> comparison of \<open>Set\<close>, and both are falsy).
\<close>

datatype jsnum = NaN | Fin rat | PInf | NInf

text \<open>
  The values \<open>JSON.parse\<close> produces, and \<open>undefined\<close>, which reading an absent
  property yields. An object lists its members in the order of the text.
\<close>

datatype jsval =
    JUndefined
  | JNull
  | JBool bool
  | JNum jsnum
  | JStr string
  | JArr "jsval list"
  | JObj "(string \<times> jsval) list"

text \<open>The outcome of \<open>JSON.parse(data.toString())\<close>: a syntax error or a value.\<close>

datatype frame = Unparseable | Parsed jsval

text \<open>
  \<open>parsed.key\<close> for a value that is not \<open>null\<close> or \<open>undefined\<close>, for the keys the
  handlers read (\<open>type\<close>, \<open>roomId\<close>, \<open>userId\<close>, \<open>user_id\<close>, \<open>text\<close>; no
  prototype defines them). On a repeated key \<open>JSON.parse\<close> keeps the last member.
\<close>

fun member :: "jsval \<Rightarrow> string \<Rightarrow> jsval" where
  "member (JObj kvs) k = (case map_of (rev kvs) k of None \<Rightarrow> JUndefined | Some v \<Rightarrow> v)"
| "member v k = JUndefined"

text \<open>Truthiness, as \<open>!parsed.roomId\<close> tests it.\<close>

fun truthy :: "jsval \<Rightarrow> bool" where
  "truthy JUndefined = False"
| "truthy JNull = False"
| "truthy (JBool b) = b"
| "truthy (JNum n) = (n \<noteq> NaN \<and> n \<noteq> Fin 0)"
| "truthy (JStr s) = (s \<noteq> [])"
| "truthy (JArr xs) = True"
| "truthy (JObj kvs) = True"

text \<open>
  Converting an object to a primitive (\<open>Number(v)\<close>, and \<open>String(v)\<close> of an array
  element) calls its \<open>valueOf\<close> and \<open>toString\<close> when they are callable and takes
  the first result that is a primitive. A member of a parsed object is never callable,
  so an object with an own member \<open>toString\<close> has no usable \<open>toString\<close>; its
  \<open>valueOf\<close> is either an own member, not callable, or the inherited one, which
  returns the object itself; so the conversion throws a TypeError. Without an own
  \<open>toString\<close> the inherited one gives a string. An array converts through \<open>join\<close>,
  which converts every element, so it throws when one of its elements does.
\<close>

fun toPrimitive_throws :: "jsval \<Rightarrow> bool" where
  "toPrimitive_throws (JObj kvs) = (''toString'' \<in> set (map fst kvs))"
| "toPrimitive_throws (JArr xs) = list_ex toPrimitive_throws xs"
| "toPrimitive_throws v = False"

text \<open>
  The value of \<open>Number(v)\<close> when the conversion does not throw. The conversion of a
  string (ECMAScript's StringToNumber) is the parameter \<open>str\<close>. An array converts
  through its string: the empty array and \<open>[null]\<close> through the empty string, a
  one-element array as its element does (a number survives the round trip through its
  string), and a longer array gives \<open>NaN\<close> because its string holds a comma. Objects,
  and \<open>true\<close>/\<open>false\<close> inside an array, give strings that are no numeric literal.
\<close>

fun Number_value :: "(string \<Rightarrow> jsnum) \<Rightarrow> jsval \<Rightarrow> jsnum" where
  "Number_value str JUndefined = NaN"
| "Number_value str JNull = Fin 0"
| "Number_value str (JBool b) = (if b then Fin 1 else Fin 0)"
| "Number_value str (JNum n) = n"
| "Number_value str (JStr s) = str s"
| "Number_value str (JArr []) = str []"
| "Number_value str (JArr [x]) =
     (case x of
        JUndefined \<Rightarrow> str []
      | JNull \<Rightarrow> str []
      | JBool b \<Rightarrow> NaN
      | JNum n \<Rightarrow> n
      | JStr s \<Rightarrow> str s
      | JArr ys \<Rightarrow> Number_value str (JArr ys)
      | JObj kvs \<Rightarrow> NaN)"
| "Number_value str (JArr (x # y # zs)) = NaN"
| "Number_value str (JObj kvs) = NaN"

text \<open>\<open>Number(v)\<close>: \<open>None\<close> when it throws a TypeError, else the number.\<close>

definition Number_of :: "(string \<Rightarrow> jsnum) \<Rightarrow> jsval \<Rightarrow> jsnum option" where
  "Number_of str v = (if toPrimitive_throws v then None else Some (Number_value str v))"

text \<open>\<open>a === b\<close> on numbers: \<open>NaN\<close> equals nothing, itself included.\<close>

definition strict_eq :: "jsnum \<Rightarrow> jsnum \<Rightarrow> bool" where
  "strict_eq a b = (a = b \<and> a \<noteq> NaN)"

section \<open>Connections, sessions and the two maps\<close>

text \<open>A WebSocket is an opaque handle; only its identity and \<open>readyState\<close> are read.\<close>

type_synonym conn = nat

datatype ready_state = CONNECTING | OPEN | CLOSING | CLOSED

text \<open>The value type of \<open>activeClients\<close>: \<open>{ userId: number; roomId: string }\<close>.\<close>

record session =
  userId :: jsnum
  roomId :: string

text \<open>
  \<open>activeClients\<close> is a \<open>Map\<close> that the fan-out iterates, so it is a list of entries
  in insertion order; \<open>roomUserMap\<close> is only read and written by key.
\<close>

record server_state =
  activeClients :: "(conn \<times> session) list"
  roomUserMap :: "string \<Rightarrow> jsnum set option"

definition init :: server_state where
  "init = \<lparr>activeClients = [], roomUserMap = (\<lambda>r. None)\<rparr>"

text \<open>\<open>Map.prototype.set\<close>: an existing key keeps its place, a new key goes last.\<close>

fun Map_set :: "('k \<times> 'v) list \<Rightarrow> 'k \<Rightarrow> 'v \<Rightarrow> ('k \<times> 'v) list" where
  "Map_set [] k v = [(k, v)]"
| "Map_set ((k', v') # kvs) k v =
     (if k' = k then (k, v) # kvs else (k', v') # Map_set kvs k v)"

definition Map_get :: "('k \<times> 'v) list \<Rightarrow> 'k \<Rightarrow> 'v option" where
  "Map_get kvs k = map_of kvs k"

definition Map_delete :: "('k \<times> 'v) list \<Rightarrow> 'k \<Rightarrow> ('k \<times> 'v) list" where
  "Map_delete kvs k = filter (\<lambda>kv. fst kv \<noteq> k) kvs"

section \<open>The external store and the transport\<close>

text \<open>
  Modelled from the spec: the Prisma schema and the generated client are not among the
  sources. A room has a string id and a list of users, a user an integer id
  (\<open>findRoom(roomId) \<rightarrow> { id, authorizedUserIds } | null\<close>); a chat row is what
  \<open>createMessage\<close> returns.
\<close>

record user =
  user_id :: int

record room =
  room_id :: string
  users :: "user list"

record chat_data =
  data_message :: jsval
  data_createdAt :: nat
  data_userId :: jsnum
  data_roomId :: string

record chat =
  chat_id :: int
  chat_message :: jsval
  chat_createdAt :: nat
  chat_userId :: jsnum
  chat_roomId :: string

text \<open>An awaited promise either rejects (the \<open>await\<close> throws) or resolves to a value.\<close>

datatype 'a promise = Rejected | Resolved 'a

text \<open>The frames the server sends, before \<open>JSON.stringify\<close>.\<close>

datatype out_frame =
    Error string
  | RegisterSuccess string jsnum
  | MessageSent chat
  | NewMessage chat

text \<open>
  What one run of a handler meets outside the two maps: the string-to-number conversion
  of the runtime, the answers of the store, the clock, and for every connection whether
  \<open>send\<close> throws and its \<open>readyState\<close>. Within one run every frame is sent to a
  connection at most once, so \<open>send_throws\<close> loses no generality.
\<close>

record env =
  StringToNumber :: "string \<Rightarrow> jsnum"
  findUnique :: "string \<Rightarrow> room option promise"
  create :: "chat_data \<Rightarrow> chat promise"
  now :: nat
  send_throws :: "conn \<Rightarrow> out_frame \<Rightarrow> bool"
  readyState :: "conn \<Rightarrow> ready_state"

text \<open>
  Modelled from the spec: \<open>prisma.roomId.findUnique({ where: { id: roomId } })\<close>. The
  room id column is a string, so the client rejects a \<open>where\<close> whose id is not one.
\<close>

definition prisma_roomId_findUnique :: "env \<Rightarrow> jsval \<Rightarrow> room option promise" where
  "prisma_roomId_findUnique e rid =
     (case rid of JStr r \<Rightarrow> findUnique e r | _ \<Rightarrow> Rejected)"

text \<open>What a run does that can be observed: sends (delivered or thrown) and store calls.\<close>

datatype event =
    Send conn out_frame
  | SendThrew conn out_frame
  | FindUnique jsval
  | Create chat_data

datatype exn = SyntaxError | TypeError | PrismaError | SendError

text \<open>
  The result of a handler, or of a part of it: the maps afterwards, the events in
  order, and the exception thrown and not caught, if there is one.
\<close>

record outcome =
  st :: server_state
  events :: "event list"
  uncaught :: "exn option"

definition send_event :: "env \<Rightarrow> conn \<Rightarrow> out_frame \<Rightarrow> event" where
  "send_event e c f = (if send_throws e c f then SendThrew c f else Send c f)"

text \<open>
  \<open>ws.send(JSON.stringify({ type: "error", message })); return;\<close> outside any inner
  \<open>try\<close>: after the events \<open>evs\<close> so far, the send either succeeds and the handler
  returns, or throws to the enclosing \<open>catch\<close>.
\<close>

definition reply :: "env \<Rightarrow> conn \<Rightarrow> server_state \<Rightarrow> event list \<Rightarrow> string \<Rightarrow> outcome" where
  "reply e ws s evs msg =
     \<lparr>st = s, events = evs @ [send_event e ws (Error msg)],
      uncaught = (if send_throws e ws (Error msg) then Some SendError else None)\<rparr>"

text \<open>An exception \<open>x\<close> is thrown to the enclosing \<open>catch\<close> after the events \<open>evs\<close>.\<close>

definition thrown :: "server_state \<Rightarrow> event list \<Rightarrow> exn \<Rightarrow> outcome" where
  "thrown s evs x = \<lparr>st = s, events = evs, uncaught = Some x\<rparr>"

section \<open>The register branch (index.ts, lines 32 to 85)\<close>

text \<open>\<open>room.users.some((u) => u.id === numericUserId)\<close>\<close>

definition isAuthorized :: "room \<Rightarrow> jsnum \<Rightarrow> bool" where
  "isAuthorized rm n = list_ex (\<lambda>u. strict_eq (Fin (of_int (user_id u))) n) (users rm)"

text \<open>
  Lines 71 to 76: \<open>activeClients.set(ws, ...)\<close>, then the room's set is created if
  absent and the user id added to it.
\<close>

definition register_commit :: "conn \<Rightarrow> jsnum \<Rightarrow> string \<Rightarrow> server_state \<Rightarrow> server_state" where
  "register_commit ws numericUserId rid s =
     \<lparr>activeClients = Map_set (activeClients s) ws \<lparr>userId = numericUserId, roomId = rid\<rparr>,
      roomUserMap =
        (case roomUserMap s rid of
           None \<Rightarrow> (roomUserMap s)(rid \<mapsto> {numericUserId})
         | Some members \<Rightarrow> (roomUserMap s)(rid \<mapsto> insert numericUserId members))\<rparr>"

text \<open>
  Lines 33 to 84. \<open>Number(parsed.userId)\<close> at line 40 comes after the presence check
  and before the room lookup; when it throws, the outer \<open>catch\<close> takes over. In the
  last distinction only the first case arises, since the lookup of an id that is not a
  string is rejected; it names the string under which the session and the membership
  are stored.
\<close>

definition register_frame :: "env \<Rightarrow> conn \<Rightarrow> jsval \<Rightarrow> server_state \<Rightarrow> outcome" where
  "register_frame e ws parsed s =
     (if \<not> truthy (member parsed ''roomId'') \<or> \<not> truthy (member parsed ''userId'')
      then reply e ws s [] ''Missing roomId or userId''
      else
        (let rid = member parsed ''roomId''
         in (case Number_of (StringToNumber e) (member parsed ''userId'') of
               None \<Rightarrow> thrown s [] TypeError
             | Some numericUserId \<Rightarrow>
                 (case prisma_roomId_findUnique e rid of
                    Rejected \<Rightarrow>
                      reply e ws s [FindUnique rid] ''Database error during room lookup''
                  | Resolved None \<Rightarrow> reply e ws s [FindUnique rid] ''Room not found''
                  | Resolved (Some rm) \<Rightarrow>
                      (if \<not> isAuthorized rm numericUserId
                       then reply e ws s [FindUnique rid] ''Unauthorized user or room''
                       else
                         (case rid of
                            JStr r \<Rightarrow>
                              \<lparr>st = register_commit ws numericUserId r s,
                               events = [FindUnique rid,
                                         send_event e ws (RegisterSuccess r numericUserId)],
                               uncaught = None\<rparr>
                          | _ \<Rightarrow>
                              reply e ws s [FindUnique rid]
                                ''Database error during room lookup''))))))"

section \<open>The message branch (index.ts, lines 88 to 159)\<close>

text \<open>\<open>roomUserMap.get(roomId)\<close>, read as a set: no entry is no member.\<close>

definition membersOf :: "server_state \<Rightarrow> string \<Rightarrow> jsnum set" where
  "membersOf s r = (case roomUserMap s r of None \<Rightarrow> {} | Some members \<Rightarrow> members)"

text \<open>The condition of the fan-out loop, lines 145 to 150.\<close>

definition is_recipient :: "env \<Rightarrow> conn \<Rightarrow> string \<Rightarrow> jsnum set \<Rightarrow> conn \<times> session \<Rightarrow> bool" where
  "is_recipient e ws r recipients entry =
     (fst entry \<noteq> ws \<and> roomId (snd entry) = r \<and> userId (snd entry) \<in> recipients \<and>
      readyState e (fst entry) = OPEN)"

text \<open>
  Lines 142 to 158: the loop over \<open>activeClients.entries()\<close>; each send is inside its
  own \<open>try\<close>, so a send that throws is logged and the loop goes on.
\<close>

definition broadcast :: "env \<Rightarrow> conn \<Rightarrow> string \<Rightarrow> chat \<Rightarrow> server_state \<Rightarrow> event list" where
  "broadcast e ws r c s =
     (case roomUserMap s r of
        None \<Rightarrow> []
      | Some recipients \<Rightarrow>
          map (\<lambda>entry. send_event e (fst entry) (NewMessage c))
            (filter (is_recipient e ws r recipients) (activeClients s)))"

text \<open>
  The condition of line 99,
  \<open>roomId !== clientMeta.roomId || numericUserId !== clientMeta.userId\<close>, of the
  frame's \<open>roomId\<close> and the number \<open>Number(user_id)\<close>.
\<close>

definition context_mismatch :: "jsval \<Rightarrow> jsnum \<Rightarrow> session \<Rightarrow> bool" where
  "context_mismatch rid numericUserId clientMeta =
     (rid \<noteq> JStr (roomId clientMeta) \<or> \<not> strict_eq numericUserId (userId clientMeta))"

text \<open>
  The \<open>data\<close> of \<open>prisma.chat.create\<close>, lines 123 to 128; \<open>text\<close> goes in as the
  frame holds it. The room id is a string here, equal to the session's.
\<close>

definition chat_payload :: "env \<Rightarrow> jsval \<Rightarrow> jsnum \<Rightarrow> session \<Rightarrow> chat_data" where
  "chat_payload e parsed numericUserId clientMeta =
     \<lparr>data_message = member parsed ''text'',
      data_createdAt = now e,
      data_userId = numericUserId,
      data_roomId = roomId clientMeta\<rparr>"

text \<open>
  Lines 89 to 158. \<open>Number(user_id)\<close> at line 97 comes after the session test and
  before the context test; when it throws, the outer \<open>catch\<close> takes over.
\<close>

definition message_frame :: "env \<Rightarrow> conn \<Rightarrow> jsval \<Rightarrow> server_state \<Rightarrow> outcome" where
  "message_frame e ws parsed s =
     (case Map_get (activeClients s) ws of
        None \<Rightarrow> reply e ws s [] ''Client not registered''
      | Some clientMeta \<Rightarrow>
          (let rid = member parsed ''roomId''
           in (case Number_of (StringToNumber e) (member parsed ''user_id'') of
                 None \<Rightarrow> thrown s [] TypeError
               | Some numericUserId \<Rightarrow>
                   (if context_mismatch rid numericUserId clientMeta
                    then reply e ws s [] ''Invalid room or user context''
                    else
                      (case prisma_roomId_findUnique e rid of
                         Rejected \<Rightarrow>
                           reply e ws s [FindUnique rid]
                             ''Database error during room validation''
                       | Resolved None \<Rightarrow> reply e ws s [FindUnique rid] ''Room not found''
                       | Resolved (Some rm) \<Rightarrow>
                           (let d = chat_payload e parsed numericUserId clientMeta
                            in (case create e d of
                                  Rejected \<Rightarrow>
                                    reply e ws s [FindUnique rid, Create d]
                                      ''Failed to save message''
                                | Resolved c \<Rightarrow>
                                    \<lparr>st = s,
                                     events =
                                       [FindUnique rid, Create d,
                                        send_event e ws (MessageSent c)]
                                       @ broadcast e ws (roomId clientMeta) c s,
                                     uncaught = None\<rparr>)))))))"

section \<open>The message handler and the close handler\<close>

text \<open>
  The body of the outer \<open>try\<close>, lines 17 to 159. Reading \<open>parsed.type\<close> throws a
  TypeError when the frame is the JSON text \<open>null\<close>; a frame of any other type falls
  through both branches.
\<close>

definition try_body :: "env \<Rightarrow> conn \<Rightarrow> frame \<Rightarrow> server_state \<Rightarrow> outcome" where
  "try_body e ws fr s =
     (case fr of
        Unparseable \<Rightarrow> reply e ws s [] ''Invalid JSON format''
      | Parsed parsed \<Rightarrow>
          if parsed = JNull \<or> parsed = JUndefined
          then thrown s [] TypeError
          else if member parsed ''type'' = JStr ''register'' then register_frame e ws parsed s
          else if member parsed ''type'' = JStr ''message'' then message_frame e ws parsed s
          else \<lparr>st = s, events = [], uncaught = None\<rparr>)"

text \<open>
  The outer \<open>catch\<close>, lines 160 to 167: an exception thrown in the body is logged and
  one more error frame is sent, inside a \<open>try\<close> of its own.
\<close>

definition outer_catch :: "env \<Rightarrow> conn \<Rightarrow> outcome \<Rightarrow> outcome" where
  "outer_catch e ws r =
     (case uncaught r of
        None \<Rightarrow> r
      | Some err \<Rightarrow>
          \<lparr>st = st r,
           events = events r @ [send_event e ws (Error ''Unexpected server error'')],
           uncaught = None\<rparr>)"

text \<open>\<open>ws.on("message", ...)\<close>, lines 15 to 168.\<close>

definition on_message :: "env \<Rightarrow> conn \<Rightarrow> frame \<Rightarrow> server_state \<Rightarrow> outcome" where
  "on_message e ws fr s = outer_catch e ws (try_body e ws fr s)"

text \<open>\<open>ws.on("close", ...)\<close>, lines 170 to 184.\<close>

definition on_close :: "conn \<Rightarrow> server_state \<Rightarrow> server_state" where
  "on_close ws s =
     \<lparr>activeClients = Map_delete (activeClients s) ws,
      roomUserMap =
        (case Map_get (activeClients s) ws of
           None \<Rightarrow> roomUserMap s
         | Some meta \<Rightarrow>
             (case roomUserMap s (roomId meta) of
                None \<Rightarrow> roomUserMap s
              | Some roomSet \<Rightarrow>
                  if roomSet - {userId meta} = {}
                  then (roomUserMap s)(roomId meta := None)
                  else (roomUserMap s)(roomId meta \<mapsto> roomSet - {userId meta})))\<rparr>"

section \<open>An earlier revision of the handler (src/unnamed/part_000)\<close>

text \<open>
  The file \<open>src/unnamed/part_000\<close> holds an earlier revision of the same server. Its
  close handler and its two maps are those of \<open>index.ts\<close>; its message handler
  differs in what it guards, and is modelled here to state the differences.
\<close>

text \<open>
  The fan-out loop of this revision (lines 106 to 115) sends outside any \<open>try\<close>: the
  first send that throws ends the loop. The result is the events and whether a send
  threw.
\<close>

fun send_each :: "env \<Rightarrow> out_frame \<Rightarrow> conn list \<Rightarrow> event list \<times> bool" where
  "send_each e f [] = ([], False)"
| "send_each e f (c # cs) =
     (if send_throws e c f then ([SendThrew c f], True)
      else (Send c f # fst (send_each e f cs), snd (send_each e f cs)))"

text \<open>
  The register branch, lines 27 to 62: a request with a missing field returns without a
  reply, the room lookup is not guarded, a room that is not found makes
  \<open>room?.users.some(...)\<close> undefined, and the success frame is sent outside any
  \<open>try\<close>, after the maps were updated.
\<close>

definition register_frame_v0 :: "env \<Rightarrow> conn \<Rightarrow> jsval \<Rightarrow> server_state \<Rightarrow> outcome" where
  "register_frame_v0 e ws parsed s =
     (if \<not> truthy (member parsed ''roomId'') \<or> \<not> truthy (member parsed ''userId'')
      then \<lparr>st = s, events = [], uncaught = None\<rparr>
      else
        (let rid = member parsed ''roomId''
         in (case Number_of (StringToNumber e) (member parsed ''userId'') of
               None \<Rightarrow> thrown s [] TypeError
             | Some numericUserId \<Rightarrow>
                 (case prisma_roomId_findUnique e rid of
                    Rejected \<Rightarrow> thrown s [FindUnique rid] PrismaError
                  | Resolved found \<Rightarrow>
                      (if \<not> (case found of
                                None \<Rightarrow> False
                              | Some rm \<Rightarrow> isAuthorized rm numericUserId)
                       then reply e ws s [FindUnique rid] ''Unauthorized user or room''
                       else
                         (case rid of
                            JStr r \<Rightarrow>
                              \<lparr>st = register_commit ws numericUserId r s,
                               events = [FindUnique rid,
                                         send_event e ws (RegisterSuccess r numericUserId)],
                               uncaught =
                                 (if send_throws e ws (RegisterSuccess r numericUserId)
                                  then Some SendError else None)\<rparr>
                          | _ \<Rightarrow> thrown s [FindUnique rid] PrismaError))))))"

text \<open>Lines 104 to 116.\<close>

definition broadcast_v0 :: "env \<Rightarrow> conn \<Rightarrow> string \<Rightarrow> chat \<Rightarrow> server_state \<Rightarrow> event list \<times> bool" where
  "broadcast_v0 e ws r c s =
     (case roomUserMap s r of
        None \<Rightarrow> ([], False)
      | Some recipients \<Rightarrow>
          send_each e (NewMessage c)
            (map fst (filter (is_recipient e ws r recipients) (activeClients s))))"

text \<open>
  The message branch, lines 65 to 117: the two store calls and the acknowledgment are
  not guarded.
\<close>

definition message_frame_v0 :: "env \<Rightarrow> conn \<Rightarrow> jsval \<Rightarrow> server_state \<Rightarrow> outcome" where
  "message_frame_v0 e ws parsed s =
     (case Map_get (activeClients s) ws of
        None \<Rightarrow> reply e ws s [] ''Client not registered''
      | Some clientMeta \<Rightarrow>
          (let rid = member parsed ''roomId''
           in (case Number_of (StringToNumber e) (member parsed ''user_id'') of
                 None \<Rightarrow> thrown s [] TypeError
               | Some numericUserId \<Rightarrow>
                   (if context_mismatch rid numericUserId clientMeta
                    then reply e ws s [] ''Invalid room or user context''
                    else
                      (case prisma_roomId_findUnique e rid of
                         Rejected \<Rightarrow> thrown s [FindUnique rid] PrismaError
                       | Resolved None \<Rightarrow> reply e ws s [FindUnique rid] ''Room not found''
                       | Resolved (Some rm) \<Rightarrow>
                           (let d = chat_payload e parsed numericUserId clientMeta
                            in (case create e d of
                                  Rejected \<Rightarrow> thrown s [FindUnique rid, Create d] PrismaError
                                | Resolved c \<Rightarrow>
                                    (if send_throws e ws (MessageSent c)
                                     then thrown s [FindUnique rid, Create d,
                                                    SendThrew ws (MessageSent c)] SendError
                                     else
                                       \<lparr>st = s,
                                        events =
                                          [FindUnique rid, Create d, Send ws (MessageSent c)]
                                          @ fst (broadcast_v0 e ws (roomId clientMeta) c s),
                                        uncaught =
                                          (if snd (broadcast_v0 e ws (roomId clientMeta) c s)
                                           then Some SendError else None)\<rparr>))))))))"

text \<open>The body of the \<open>try\<close>, lines 20 to 117; \<open>JSON.parse\<close> is not guarded.\<close>

definition try_body_v0 :: "env \<Rightarrow> conn \<Rightarrow> frame \<Rightarrow> server_state \<Rightarrow> outcome" where
  "try_body_v0 e ws fr s =
     (case fr of
        Unparseable \<Rightarrow> thrown s [] SyntaxError
      | Parsed parsed \<Rightarrow>
          if parsed = JNull \<or> parsed = JUndefined then thrown s [] TypeError
          else if member parsed ''type'' = JStr ''register'' then register_frame_v0 e ws parsed s
          else if member parsed ''type'' = JStr ''message'' then message_frame_v0 e ws parsed s
          else \<lparr>st = s, events = [], uncaught = None\<rparr>)"

text \<open>
  The \<open>catch\<close>, lines 118 to 121: it sends the error frame ``Server error'' outside
  any \<open>try\<close>, so an exception thrown by that send leaves the handler.
\<close>

definition outer_catch_v0 :: "env \<Rightarrow> conn \<Rightarrow> outcome \<Rightarrow> outcome" where
  "outer_catch_v0 e ws r =
     (case uncaught r of
        None \<Rightarrow> r
      | Some err \<Rightarrow>
          \<lparr>st = st r,
           events = events r @ [send_event e ws (Error ''Server error'')],
           uncaught =
             (if send_throws e ws (Error ''Server error'') then Some SendError else None)\<rparr>)"

text \<open>The handler, lines 18 to 122.\<close>

definition on_message_v0 :: "env \<Rightarrow> conn \<Rightarrow> frame \<Rightarrow> server_state \<Rightarrow> outcome" where
  "on_message_v0 e ws fr s = outer_catch_v0 e ws (try_body_v0 e ws fr s)"

section \<open>Sequences of events\<close>

text \<open>
  The server reacts to two kinds of event: a frame arriving on a connection (with what
  the handler meets outside the maps during that run) and a connection closing. The
  handlers run one after the other from the empty maps; a run is taken as a whole, so
  what another handler does while a run awaits the store is outside this model.
\<close>

datatype input = Message env conn frame | Close conn

fun step :: "server_state \<Rightarrow> input \<Rightarrow> server_state" where
  "step s (Message e ws fr) = st (on_message e ws fr s)"
| "step s (Close ws) = on_close ws s"

definition run :: "input list \<Rightarrow> server_state" where
  "run ins = foldl step init ins"

text \<open>
  The user ids of the live sessions of a room: those of the entries of
  \<open>activeClients\<close> whose \<open>roomId\<close> is the room.
\<close>

definition live_users :: "server_state \<Rightarrow> string \<Rightarrow> jsnum set" where
  "live_users s r =
     set (map (\<lambda>entry. userId (snd entry))
            (filter (\<lambda>entry. roomId (snd entry) = r) (activeClients s)))"

section \<open>Reading a run\<close>

text \<open>The sends of a run that were delivered, in order.\<close>

fun delivered :: "event list \<Rightarrow> (conn \<times> out_frame) list" where
  "delivered [] = []"
| "delivered (Send c f # evs) = (c, f) # delivered evs"
| "delivered (ev # evs) = delivered evs"

text \<open>The sends of a run that were attempted, delivered or not.\<close>

fun attempted :: "event list \<Rightarrow> (conn \<times> out_frame) list" where
  "attempted [] = []"
| "attempted (Send c f # evs) = (c, f) # attempted evs"
| "attempted (SendThrew c f # evs) = (c, f) # attempted evs"
| "attempted (ev # evs) = attempted evs"

text \<open>The calls to the store a run made.\<close>

fun store_calls :: "event list \<Rightarrow> event list" where
  "store_calls [] = []"
| "store_calls (FindUnique rid # evs) = FindUnique rid # store_calls evs"
| "store_calls (Create d # evs) = Create d # store_calls evs"
| "store_calls (ev # evs) = store_calls evs"

fun is_error :: "out_frame \<Rightarrow> bool" where
  "is_error (Error msg) = True"
| "is_error f = False"

fun is_new_message :: "out_frame \<Rightarrow> bool" where
  "is_new_message (NewMessage c) = True"
| "is_new_message f = False"

text \<open>
  The events of an error reply as the whole handler performs it: the send of the error
  frame and, when that send throws, the send of the outer \<open>catch\<close>.
\<close>

definition error_reply :: "env \<Rightarrow> conn \<Rightarrow> string \<Rightarrow> event list" where
  "error_reply e ws msg =
     (if send_throws e ws (Error msg)
      then [SendThrew ws (Error msg), send_event e ws (Error ''Unexpected server error'')]
      else [Send ws (Error msg)])"

text \<open>A call to the store was rejected during the run.\<close>

fun rejected_call :: "env \<Rightarrow> event \<Rightarrow> bool" where
  "rejected_call e (FindUnique rid) = (prisma_roomId_findUnique e rid = Rejected)"
| "rejected_call e (Create d) = (create e d = Rejected)"
| "rejected_call e ev = False"

definition store_failed :: "env \<Rightarrow> event list \<Rightarrow> bool" where
  "store_failed e evs = list_ex (rejected_call e) evs"

text \<open>
  A value ``coerces to an integer'' when \<open>Number\<close> of it does not throw and is a
  finite whole number.
\<close>

fun is_integer :: "jsnum \<Rightarrow> bool" where
  "is_integer (Fin q) = (of_int \<lfloor>q\<rfloor> = q)"
| "is_integer n = False"

definition coerces_to_integer :: "env \<Rightarrow> jsval \<Rightarrow> bool" where
  "coerces_to_integer e v =
     (case Number_of (StringToNumber e) v of None \<Rightarrow> False | Some n \<Rightarrow> is_integer n)"

section \<open>Concrete frames and surroundings for the examples\<close>

text \<open>
  A string-to-number conversion for the examples: it agrees with the runtime's on the
  strings of decimal digits (below \<open>2^53\<close>) and on \<open>abc\<close>, the only strings the
  examples convert.
\<close>

definition is_digit :: "char \<Rightarrow> bool" where
  "is_digit c = (48 \<le> (of_char c :: nat) \<and> (of_char c :: nat) \<le> 57)"

definition decimal_digits :: "string \<Rightarrow> jsnum" where
  "decimal_digits s =
     (if list_all is_digit s
      then Fin (of_nat (foldl (\<lambda>a c. 10 * a + (of_char c - 48)) 0 s))
      else NaN)"

text \<open>
  A store with room \<open>r1\<close> (users 1 and 2) and room \<open>r2\<close> (user 2) that saves every
  chat, and a transport on which every send succeeds and every connection is open.
\<close>

definition example_env :: env where
  "example_env =
     \<lparr>StringToNumber = decimal_digits,
      findUnique = (\<lambda>r.
        if r = ''r1'' then Resolved (Some \<lparr>room_id = ''r1'', users = [\<lparr>user_id = 1\<rparr>, \<lparr>user_id = 2\<rparr>]\<rparr>)
        else if r = ''r2'' then Resolved (Some \<lparr>room_id = ''r2'', users = [\<lparr>user_id = 2\<rparr>]\<rparr>)
        else Resolved None),
      create = (\<lambda>d. Resolved \<lparr>chat_id = 1, chat_message = data_message d,
                               chat_createdAt = data_createdAt d, chat_userId = data_userId d,
                               chat_roomId = data_roomId d\<rparr>),
      now = 0,
      send_throws = (\<lambda>c f. False),
      readyState = (\<lambda>c. OPEN)\<rparr>"

text \<open>\<open>{ "type": "register", "roomId": r, "userId": u }\<close>\<close>

definition register_request :: "string \<Rightarrow> jsval \<Rightarrow> frame" where
  "register_request r u =
     Parsed (JObj [(''type'', JStr ''register''), (''roomId'', JStr r), (''userId'', u)])"

text \<open>\<open>{ "type": "message", "roomId": r, "user_id": u, "text": t }\<close>\<close>

definition message_request :: "string \<Rightarrow> jsval \<Rightarrow> jsval \<Rightarrow> frame" where
  "message_request r u t =
     Parsed (JObj [(''type'', JStr ''message''), (''roomId'', JStr r), (''user_id'', u),
                   (''text'', t)])"

text \<open>
  Connection 1 registered as user 1 and connection 2 as user 2, both in room \<open>r1\<close>.
\<close>

definition two_clients :: server_state where
  "two_clients =
     \<lparr>activeClients = [(1, \<lparr>userId = Fin 1, roomId = ''r1''\<rparr>),
                       (2, \<lparr>userId = Fin 2, roomId = ''r1''\<rparr>)],
      roomUserMap = [''r1'' \<mapsto> {Fin 1, Fin 2}]\<rparr>"

text \<open>The chat row the example store returns for a message \<open>t\<close> of user 1 in \<open>r1\<close>.\<close>

definition example_chat :: "jsval \<Rightarrow> chat" where
  "example_chat t =
     \<lparr>chat_id = 1, chat_message = t, chat_createdAt = 0, chat_userId = Fin 1,
      chat_roomId = ''r1''\<rparr>"

text \<open>
  The store of the example with a typed message column: it saves a chat only when the
  message is a string, as the specification's chat has \<open>text\<close>, and rejects every
  other value.
\<close>

definition string_store_env :: env where
  "string_store_env =
     example_env\<lparr>create := (\<lambda>d. case data_message d of
                                      JStr t \<Rightarrow> create example_env d
                                    | _ \<Rightarrow> Rejected)\<rparr>"

text \<open>A transport on which every send throws.\<close>

definition broken_send_env :: env where
  "broken_send_env = example_env\<lparr>send_throws := (\<lambda>c f. True)\<rparr>"

section \<open>Basic facts about the handlers\<close>

lemmas eval_defs =
  run_def init_def example_env_def register_request_def on_message_def try_body_def
  register_frame_def outer_catch_def prisma_roomId_findUnique_def isAuthorized_def
  strict_eq_def register_commit_def on_close_def Map_get_def Map_delete_def
  Number_of_def thrown_def decimal_digits_def is_digit_def Let_def

lemma outer_catch_reply:
  "outer_catch e ws (reply e ws s evs msg) =
     \<lparr>st = s, events = evs @ error_reply e ws msg, uncaught = None\<rparr>"
  by (simp add: outer_catch_def reply_def error_reply_def send_event_def)

lemma outer_catch_thrown:
  "outer_catch e ws (thrown s evs x) =
     \<lparr>st = s, events = evs @ [send_event e ws (Error ''Unexpected server error'')],
      uncaught = None\<rparr>"
  by (simp add: outer_catch_def thrown_def)

lemma st_outer_catch: "st (outer_catch e ws r) = st r"
  by (simp add: outer_catch_def split: option.split)

lemma on_message_register:
  "member parsed ''type'' = JStr ''register'' \<Longrightarrow>
   on_message e ws (Parsed parsed) s = outer_catch e ws (register_frame e ws parsed s)"
  by (auto simp: on_message_def try_body_def)

lemma on_message_message:
  "member parsed ''type'' = JStr ''message'' \<Longrightarrow>
   on_message e ws (Parsed parsed) s = outer_catch e ws (message_frame e ws parsed s)"
  by (auto simp: on_message_def try_body_def)

lemma attempted_append: "attempted (xs @ ys) = attempted xs @ attempted ys"
  by (induction xs rule: attempted.induct) simp_all

lemma delivered_append: "delivered (xs @ ys) = delivered xs @ delivered ys"
  by (induction xs rule: delivered.induct) simp_all

lemma attempted_error_reply:
  "attempted (error_reply e ws msg) =
     (if send_throws e ws (Error msg)
      then [(ws, Error msg), (ws, Error ''Unexpected server error'')]
      else [(ws, Error msg)])"
  by (simp add: error_reply_def send_event_def)

lemma delivered_error_reply:
  "delivered (error_reply e ws msg) =
     (if send_throws e ws (Error msg)
      then (if send_throws e ws (Error ''Unexpected server error'') then []
            else [(ws, Error ''Unexpected server error'')])
      else [(ws, Error msg)])"
  by (simp add: error_reply_def send_event_def)

lemma store_calls_error_reply: "store_calls (error_reply e ws msg) = []"
  by (simp add: error_reply_def send_event_def)

lemma two_clients_reached:
  "run [Message example_env 1 (register_request ''r1'' (JNum (Fin 1))),
        Message example_env 2 (register_request ''r1'' (JStr ''2''))] = two_clients"
  by (simp add: eval_defs two_clients_def insert_commute)

subsection \<open>The keys of \<open>activeClients\<close> stay distinct\<close>

lemma keys_Map_set: "fst ` set (Map_set kvs k v) = insert k (fst ` set kvs)"
  by (induction kvs) force+

lemma distinct_Map_set:
  "distinct (map fst kvs) \<Longrightarrow> distinct (map fst (Map_set kvs k v))"
  by (induction kvs) (auto simp: keys_Map_set)

lemma distinct_Map_delete:
  "distinct (map fst kvs) \<Longrightarrow> distinct (map fst (Map_delete kvs k))"
  by (simp add: Map_delete_def distinct_map_filter)

lemma activeClients_register_frame:
  "activeClients (st (register_frame e ws parsed s)) = activeClients s \<or>
   (\<exists>m. activeClients (st (register_frame e ws parsed s)) = Map_set (activeClients s) ws m)"
  by (auto simp: register_frame_def Let_def reply_def thrown_def register_commit_def
      split: promise.split option.split jsval.split)

lemma st_message_frame: "st (message_frame e ws parsed s) = s"
  by (simp add: message_frame_def Let_def reply_def thrown_def
      split: promise.split option.split)

lemma activeClients_on_message:
  "activeClients (st (on_message e ws fr s)) = activeClients s \<or>
   (\<exists>m. activeClients (st (on_message e ws fr s)) = Map_set (activeClients s) ws m)"
  using activeClients_register_frame [of e ws _ s]
  by (auto simp: on_message_def st_outer_catch try_body_def reply_def thrown_def
      st_message_frame split: frame.split)

lemma distinct_step:
  "distinct (map fst (activeClients s)) \<Longrightarrow> distinct (map fst (activeClients (step s i)))"
proof (cases i)
  case (Message e ws fr)
  assume "distinct (map fst (activeClients s))"
  with activeClients_on_message [of e ws fr s] Message show ?thesis
    by (auto simp: distinct_Map_set)
next
  case (Close ws)
  assume "distinct (map fst (activeClients s))"
  with Close show ?thesis
    by (simp add: on_close_def distinct_Map_delete)
qed

lemma distinct_foldl_step:
  "distinct (map fst (activeClients s)) \<Longrightarrow>
   distinct (map fst (activeClients (foldl step s ins)))"
  by (induction ins arbitrary: s) (simp_all add: distinct_step)

lemma distinct_keys_run: "distinct (map fst (activeClients (run ins)))"
  by (simp add: run_def distinct_foldl_step init_def)

subsection \<open>The message branch, path by path\<close>

lemma message_frame_throw:
  assumes "Map_get (activeClients s) ws = Some meta"
    and "Number_of (StringToNumber e) (member parsed ''user_id'') = None"
  shows "message_frame e ws parsed s = thrown s [] TypeError"
  using assms by (simp add: message_frame_def)

lemma message_frame_context:
  assumes "Map_get (activeClients s) ws = Some meta"
    and "Number_of (StringToNumber e) (member parsed ''user_id'') = Some n"
    and "context_mismatch (member parsed ''roomId'') n meta"
  shows "message_frame e ws parsed s = reply e ws s [] ''Invalid room or user context''"
  using assms by (simp add: message_frame_def)

lemma matching_roomId:
  "\<not> context_mismatch rid n meta \<Longrightarrow> rid = JStr (roomId meta)"
  by (simp add: context_mismatch_def)

lemma message_frame_create:
  assumes "Map_get (activeClients s) ws = Some meta"
    and "Number_of (StringToNumber e) (member parsed ''user_id'') = Some n"
    and "\<not> context_mismatch (member parsed ''roomId'') n meta"
    and "findUnique e (roomId meta) = Resolved (Some rm)"
  shows "message_frame e ws parsed s =
     (case create e (chat_payload e parsed n meta) of
        Rejected \<Rightarrow>
          reply e ws s [FindUnique (JStr (roomId meta)), Create (chat_payload e parsed n meta)]
            ''Failed to save message''
      | Resolved c \<Rightarrow>
          \<lparr>st = s,
           events = [FindUnique (JStr (roomId meta)), Create (chat_payload e parsed n meta),
                     send_event e ws (MessageSent c)] @ broadcast e ws (roomId meta) c s,
           uncaught = None\<rparr>)"
proof -
  have "member parsed ''roomId'' = JStr (roomId meta)"
    using assms(3) by (rule matching_roomId)
  with assms show ?thesis
    by (simp add: message_frame_def prisma_roomId_findUnique_def Let_def)
qed

section \<open>Registration\<close>

text \<open>
  Counterexample to C3 as stated. Room \<open>r1\<close> exists and its users are 1 and 2, so the
  user id \<open>0\<close> is not in its authorized list; the register request is answered
  ``Missing roomId or userId'', not with the Unauthorized error.
\<close>

theorem register_unauthorized_counterexample:
  "findUnique example_env ''r1'' =
     Resolved (Some \<lparr>room_id = ''r1'', users = [\<lparr>user_id = 1\<rparr>, \<lparr>user_id = 2\<rparr>]\<rparr>) \<and>
   \<not> isAuthorized \<lparr>room_id = ''r1'', users = [\<lparr>user_id = 1\<rparr>, \<lparr>user_id = 2\<rparr>]\<rparr> (Fin 0) \<and>
   events (on_message example_env 1 (register_request ''r1'' (JNum (Fin 0))) init) =
     [Send 1 (Error ''Missing roomId or userId'')]"
  by (simp add: eval_defs reply_def send_event_def)

text \<open>
  Claim C3, amended. A register request whose \<open>roomId\<close> is the id \<open>r\<close> of a room the
  store finds, and whose user id is not the id of any user of that room, changes
  neither \<open>activeClients\<close> nor \<open>roomUserMap\<close> and lets no exception leave the
  handler. It is answered with the error frame ``Unauthorized user or room'' when both
  fields pass the presence check of line 33 and \<open>Number(userId)\<close> does not throw. A
  request with an empty \<open>roomId\<close> or a falsy \<open>userId\<close> is answered ``Missing roomId or
  userId'' without a lookup, and one on whose \<open>userId\<close> \<open>Number\<close> throws is answered
  ``Unexpected server error'' without a lookup. (Each error reply is followed by the
  frame of the outer \<open>catch\<close> when sending it throws.)
\<close>

theorem register_unauthorized_rejected:
  assumes "member parsed ''type'' = JStr ''register''"
    and "member parsed ''roomId'' = JStr r"
    and "findUnique e r = Resolved (Some rm)"
    and "\<forall>n. Number_of (StringToNumber e) (member parsed ''userId'') = Some n \<longrightarrow>
           \<not> isAuthorized rm n"
  shows "st (on_message e ws (Parsed parsed) s) = s \<and>
         uncaught (on_message e ws (Parsed parsed) s) = None \<and>
         events (on_message e ws (Parsed parsed) s) =
           (if r = [] \<or> \<not> truthy (member parsed ''userId'')
            then error_reply e ws ''Missing roomId or userId''
            else (case Number_of (StringToNumber e) (member parsed ''userId'') of
                    None \<Rightarrow> [send_event e ws (Error ''Unexpected server error'')]
                  | Some n \<Rightarrow>
                      FindUnique (JStr r) # error_reply e ws ''Unauthorized user or room''))"
proof (cases "r = [] \<or> \<not> truthy (member parsed ''userId'')")
  case True
  with assms(1,2) show ?thesis
    by (auto simp: on_message_register register_frame_def outer_catch_reply)
next
  case False
  show ?thesis
  proof (cases "Number_of (StringToNumber e) (member parsed ''userId'')")
    case None
    with False assms(1,2) show ?thesis
      by (simp add: on_message_register register_frame_def outer_catch_thrown)
  next
    case (Some n)
    with assms(4) have "\<not> isAuthorized rm n" by simp
    with Some False assms(1,2,3) show ?thesis
      by (simp add: on_message_register register_frame_def outer_catch_reply
          prisma_roomId_findUnique_def)
  qed
qed

text \<open>
  Witness for C3: user 3, and then a user id that is an object with a member
  \<open>toString\<close>, ask for room \<open>r1\<close>, whose users are 1 and 2, on a fresh server.
\<close>

theorem register_unauthorized_rejected_witness:
  "st (on_message example_env 1 (register_request ''r1'' (JNum (Fin 3))) init) = init \<and>
   events (on_message example_env 1 (register_request ''r1'' (JNum (Fin 3))) init) =
     [FindUnique (JStr ''r1''), Send 1 (Error ''Unauthorized user or room'')] \<and>
   events (on_message example_env 1
             (register_request ''r1'' (JObj [(''toString'', JNum (Fin 1))])) init) =
     [Send 1 (Error ''Unexpected server error'')]"
  using register_unauthorized_rejected
    [of "JObj [(''type'', JStr ''register''), (''roomId'', JStr ''r1''),
               (''userId'', JNum (Fin 3))]"
        "''r1''" example_env
        "\<lparr>room_id = ''r1'', users = [\<lparr>user_id = 1\<rparr>, \<lparr>user_id = 2\<rparr>]\<rparr>" 1 init]
    register_unauthorized_rejected
    [of "JObj [(''type'', JStr ''register''), (''roomId'', JStr ''r1''),
               (''userId'', JObj [(''toString'', JNum (Fin 1))])]"
        "''r1''" example_env
        "\<lparr>room_id = ''r1'', users = [\<lparr>user_id = 1\<rparr>, \<lparr>user_id = 2\<rparr>]\<rparr>" 1 init]
  by (simp add: register_request_def example_env_def isAuthorized_def strict_eq_def
      error_reply_def Number_of_def send_event_def)

subsection \<open>The presence check\<close>

lemma authorized_is_integer: "isAuthorized rm n \<Longrightarrow> is_integer n"
  by (auto simp: isAuthorized_def list_ex_iff strict_eq_def)

lemma register_frame_st:
  "st (register_frame e ws parsed s) \<noteq> s \<Longrightarrow>
   coerces_to_integer e (member parsed ''userId'')"
  by (auto simp: register_frame_def Let_def reply_def thrown_def coerces_to_integer_def
      authorized_is_integer split: promise.splits option.splits jsval.splits if_splits)

lemma register_frame_v0_st:
  "st (register_frame_v0 e ws parsed s) \<noteq> s \<Longrightarrow>
   coerces_to_integer e (member parsed ''userId'')"
  by (auto simp: register_frame_v0_def Let_def reply_def thrown_def coerces_to_integer_def
      authorized_is_integer split: promise.splits option.splits jsval.splits if_splits)

lemma register_frame_lookup_first:
  assumes "truthy (member parsed ''roomId'') \<and> truthy (member parsed ''userId'')"
    and "Number_of (StringToNumber e) (member parsed ''userId'') = Some n"
  shows "\<exists>rest. events (register_frame e ws parsed s) =
           FindUnique (member parsed ''roomId'') # rest"
  using assms
  by (simp add: register_frame_def Let_def reply_def
      split: promise.split option.split jsval.split)

lemma register_frame_v0_lookup_first:
  assumes "truthy (member parsed ''roomId'') \<and> truthy (member parsed ''userId'')"
    and "Number_of (StringToNumber e) (member parsed ''userId'') = Some n"
  shows "\<exists>rest. events (register_frame_v0 e ws parsed s) =
           FindUnique (member parsed ''roomId'') # rest"
  using assms
  by (simp add: register_frame_v0_def Let_def reply_def thrown_def
      split: promise.split option.split jsval.split)

lemma on_message_v0_register:
  "member parsed ''type'' = JStr ''register'' \<Longrightarrow>
   on_message_v0 e ws (Parsed parsed) s =
     outer_catch_v0 e ws (register_frame_v0 e ws parsed s)"
  by (auto simp: on_message_v0_def try_body_v0_def)

lemma st_outer_catch_v0: "st (outer_catch_v0 e ws r) = st r"
  by (simp add: outer_catch_v0_def split: option.split)

lemma take1_outer_catch:
  "events r = ev # rest \<Longrightarrow> take 1 (events (outer_catch e ws r)) = [ev]"
  by (simp add: outer_catch_def split: option.split)

lemma take1_outer_catch_v0:
  "events r = ev # rest \<Longrightarrow> take 1 (events (outer_catch_v0 e ws r)) = [ev]"
  by (simp add: outer_catch_v0_def split: option.split)

lemma v0_missing_field_silent:
  assumes "member parsed ''type'' = JStr ''register''"
    and "\<not> truthy (member parsed ''roomId'') \<or> \<not> truthy (member parsed ''userId'')"
  shows "on_message_v0 e ws (Parsed parsed) s = \<lparr>st = s, events = [], uncaught = None\<rparr>"
  using assms
  by (auto simp: on_message_v0_register register_frame_v0_def outer_catch_v0_def)

text \<open>
  Counterexample to C4 as stated. The user id \<open>1.5\<close> does not coerce to an integer,
  yet the request passes the validation step: the store is asked for the room and the
  reply is the Unauthorized error, not an invalid-request error. The user id \<open>0\<close>
  coerces to the integer 0 and the \<open>roomId\<close> is present, yet the request is rejected
  with ``Missing roomId or userId''.
\<close>

theorem register_validation_counterexample:
  "\<not> coerces_to_integer example_env (JNum (Fin (3 / 2))) \<and>
   events (on_message example_env 1 (register_request ''r1'' (JNum (Fin (3 / 2)))) init) =
     [FindUnique (JStr ''r1''), Send 1 (Error ''Unauthorized user or room'')] \<and>
   coerces_to_integer example_env (JNum (Fin 0)) \<and>
   events (on_message example_env 1 (register_request ''r1'' (JNum (Fin 0))) init) =
     [Send 1 (Error ''Missing roomId or userId'')]"
proof -
  have "\<not> is_integer (Fin (3 / 2))"
    by code_simp
  then show ?thesis
    by (simp add: coerces_to_integer_def eval_defs reply_def send_event_def)
qed

text \<open>
  Claim C4, amended. The validation step of a register request tests presence only.
  When \<open>roomId\<close> or \<open>userId\<close> is absent or falsy (\<open>null\<close>, \<open>false\<close>, \<open>0\<close>, the
  empty string), \<open>index.ts\<close> answers ``Missing roomId or userId'' and does nothing
  else; in the earlier revision, too, the store is not called and the state is not
  changed. When both are truthy the request passes, whether or not the user id coerces
  to an integer: \<open>Number(userId)\<close> is computed and, unless it throws (then
  \<open>index.ts\<close> answers ``Unexpected server error''), the room lookup is the first thing
  done, in both revisions. A user id that does not coerce to an integer never changes
  the state, in either revision.
\<close>

theorem register_presence_check:
  assumes "member parsed ''type'' = JStr ''register''"
  shows "(\<not> truthy (member parsed ''roomId'') \<or> \<not> truthy (member parsed ''userId'') \<longrightarrow>
            on_message e ws (Parsed parsed) s =
              \<lparr>st = s, events = error_reply e ws ''Missing roomId or userId'',
               uncaught = None\<rparr> \<and>
            st (on_message_v0 e ws (Parsed parsed) s) = s \<and>
            store_calls (events (on_message_v0 e ws (Parsed parsed) s)) = []) \<and>
         (truthy (member parsed ''roomId'') \<and> truthy (member parsed ''userId'') \<longrightarrow>
            (case Number_of (StringToNumber e) (member parsed ''userId'') of
               None \<Rightarrow>
                 on_message e ws (Parsed parsed) s =
                   \<lparr>st = s, events = [send_event e ws (Error ''Unexpected server error'')],
                    uncaught = None\<rparr>
             | Some n \<Rightarrow>
                 take 1 (events (on_message e ws (Parsed parsed) s)) =
                   [FindUnique (member parsed ''roomId'')] \<and>
                 take 1 (events (on_message_v0 e ws (Parsed parsed) s)) =
                   [FindUnique (member parsed ''roomId'')])) \<and>
         (\<not> coerces_to_integer e (member parsed ''userId'') \<longrightarrow>
            st (on_message e ws (Parsed parsed) s) = s \<and>
            st (on_message_v0 e ws (Parsed parsed) s) = s)"
proof -
  let ?uid = "member parsed ''userId''"
  let ?rid = "member parsed ''roomId''"
  have R: "on_message e ws (Parsed parsed) s = outer_catch e ws (register_frame e ws parsed s)"
    using assms by (rule on_message_register)
  have R0: "on_message_v0 e ws (Parsed parsed) s =
      outer_catch_v0 e ws (register_frame_v0 e ws parsed s)"
    using assms by (rule on_message_v0_register)
  have 1: "on_message e ws (Parsed parsed) s =
         \<lparr>st = s, events = error_reply e ws ''Missing roomId or userId'', uncaught = None\<rparr> \<and>
       st (on_message_v0 e ws (Parsed parsed) s) = s \<and>
       store_calls (events (on_message_v0 e ws (Parsed parsed) s)) = []"
    if falsy: "\<not> truthy ?rid \<or> \<not> truthy ?uid"
  proof -
    have "on_message e ws (Parsed parsed) s =
        \<lparr>st = s, events = error_reply e ws ''Missing roomId or userId'', uncaught = None\<rparr>"
      using falsy by (auto simp: R register_frame_def outer_catch_reply)
    moreover have "on_message_v0 e ws (Parsed parsed) s =
        \<lparr>st = s, events = [], uncaught = None\<rparr>"
      using assms falsy by (rule v0_missing_field_silent)
    ultimately show ?thesis by simp
  qed
  have 2: "(case Number_of (StringToNumber e) ?uid of
       None \<Rightarrow>
         on_message e ws (Parsed parsed) s =
           \<lparr>st = s, events = [send_event e ws (Error ''Unexpected server error'')],
            uncaught = None\<rparr>
     | Some n \<Rightarrow>
         take 1 (events (on_message e ws (Parsed parsed) s)) = [FindUnique ?rid] \<and>
         take 1 (events (on_message_v0 e ws (Parsed parsed) s)) = [FindUnique ?rid])"
    if both: "truthy ?rid \<and> truthy ?uid"
  proof (cases "Number_of (StringToNumber e) ?uid")
    case None
    with both show ?thesis
      by (simp add: R register_frame_def outer_catch_thrown)
  next
    case (Some n)
    from register_frame_lookup_first [OF both Some]
    obtain rest where "events (register_frame e ws parsed s) = FindUnique ?rid # rest"
      by blast
    then have a: "take 1 (events (on_message e ws (Parsed parsed) s)) = [FindUnique ?rid]"
      unfolding R by (rule take1_outer_catch)
    from register_frame_v0_lookup_first [OF both Some]
    obtain rest0 where "events (register_frame_v0 e ws parsed s) = FindUnique ?rid # rest0"
      by blast
    then have "take 1 (events (on_message_v0 e ws (Parsed parsed) s)) = [FindUnique ?rid]"
      unfolding R0 by (rule take1_outer_catch_v0)
    with a Some show ?thesis by simp
  qed
  have 3: "st (on_message e ws (Parsed parsed) s) = s \<and>
       st (on_message_v0 e ws (Parsed parsed) s) = s"
    if "\<not> coerces_to_integer e ?uid"
    using that register_frame_st [of e ws parsed s] register_frame_v0_st [of e ws parsed s]
    by (auto simp: R R0 st_outer_catch st_outer_catch_v0)
  show ?thesis using 1 2 3 by blast
qed

text \<open>
  Witness for C4: a register frame without \<open>userId\<close>, one whose \<open>userId\<close> is the
  string \<open>abc\<close>, which is present but converts to \<open>NaN\<close>, and one whose \<open>userId\<close>
  is an object with a member \<open>toString\<close>.
\<close>

theorem register_presence_check_witness:
  "on_message example_env 1
     (Parsed (JObj [(''type'', JStr ''register''), (''roomId'', JStr ''r1'')])) init =
     \<lparr>st = init, events = [Send 1 (Error ''Missing roomId or userId'')], uncaught = None\<rparr> \<and>
   take 1 (events (on_message example_env 1 (register_request ''r1'' (JStr ''abc'')) init)) =
     [FindUnique (JStr ''r1'')] \<and>
   st (on_message example_env 1 (register_request ''r1'' (JStr ''abc'')) init) = init \<and>
   on_message example_env 1
     (register_request ''r1'' (JObj [(''toString'', JNum (Fin 1))])) init =
     \<lparr>st = init, events = [Send 1 (Error ''Unexpected server error'')], uncaught = None\<rparr>"
  using register_presence_check
      [of "JObj [(''type'', JStr ''register''), (''roomId'', JStr ''r1'')]" example_env 1 init]
    register_presence_check
      [of "JObj [(''type'', JStr ''register''), (''roomId'', JStr ''r1''),
                 (''userId'', JStr ''abc'')]" example_env 1 init]
    register_presence_check
      [of "JObj [(''type'', JStr ''register''), (''roomId'', JStr ''r1''),
                 (''userId'', JObj [(''toString'', JNum (Fin 1))])]" example_env 1 init]
  by (simp add: register_request_def error_reply_def example_env_def coerces_to_integer_def
      Number_of_def send_event_def decimal_digits_def is_digit_def)

section \<open>Relaying a message\<close>

text \<open>
  Counterexample to C5 as stated. Connection 1 holds a session in room \<open>r1\<close> and
  sends a message frame for room \<open>r2\<close> whose \<open>user_id\<close> is an object with a member
  \<open>toString\<close>. The room differs from the session's, yet the reply is ``Unexpected
  server error'', not the context error: \<open>Number(user_id)\<close> at line 97 throws before
  the test of line 99.
\<close>

theorem message_context_counterexample:
  "Map_get (activeClients two_clients) 1 = Some \<lparr>userId = Fin 1, roomId = ''r1''\<rparr> \<and>
   on_message example_env 1
     (message_request ''r2'' (JObj [(''toString'', JNum (Fin 1))]) (JStr ''hi'')) two_clients =
     \<lparr>st = two_clients, events = [Send 1 (Error ''Unexpected server error'')],
      uncaught = None\<rparr>"
  by (simp add: eval_defs two_clients_def message_request_def message_frame_def
      send_event_def)

text \<open>
  Claim C5, amended. A connection with a session sends a message frame. When
  \<open>Number(user_id)\<close> does not throw and the frame's \<open>roomId\<close> is not the session's
  or the number is not strictly equal to the session's user id, the handler answers the
  sender with ``Invalid room or user context''; when \<open>Number(user_id)\<close> throws, it
  answers ``Unexpected server error'', whatever the \<open>roomId\<close>. In both cases it does
  nothing else: the state is unchanged, the store is not called, and no new-message
  frame is sent to anyone. (The context error is followed by the frame of the outer
  \<open>catch\<close> when sending it throws.)
\<close>

theorem message_context_mismatch_rejected:
  assumes "Map_get (activeClients s) ws = Some meta"
    and "member parsed ''type'' = JStr ''message''"
    and "\<forall>n. Number_of (StringToNumber e) (member parsed ''user_id'') = Some n \<longrightarrow>
           context_mismatch (member parsed ''roomId'') n meta"
  shows "on_message e ws (Parsed parsed) s =
           \<lparr>st = s,
            events =
              (case Number_of (StringToNumber e) (member parsed ''user_id'') of
                 None \<Rightarrow> [send_event e ws (Error ''Unexpected server error'')]
               | Some n \<Rightarrow> error_reply e ws ''Invalid room or user context''),
            uncaught = None\<rparr> \<and>
         store_calls (events (on_message e ws (Parsed parsed) s)) = [] \<and>
         filter (\<lambda>cf. is_new_message (snd cf))
           (attempted (events (on_message e ws (Parsed parsed) s))) = []"
proof (cases "Number_of (StringToNumber e) (member parsed ''user_id'')")
  case None
  with assms(1,2) show ?thesis
    by (simp add: on_message_message message_frame_throw outer_catch_thrown send_event_def)
next
  case (Some n)
  with assms(3) have "context_mismatch (member parsed ''roomId'') n meta" by simp
  with Some assms(1,2) show ?thesis
    by (simp add: on_message_message message_frame_context outer_catch_reply
        store_calls_error_reply attempted_error_reply)
qed

text \<open>
  Witness for C5: user 1 of room \<open>r1\<close> sends a message for room \<open>r2\<close>, then a
  message for \<open>r1\<close> as user 2, then one whose \<open>user_id\<close> makes \<open>Number\<close> throw.
\<close>

theorem message_context_mismatch_rejected_witness:
  "on_message example_env 1 (message_request ''r2'' (JNum (Fin 1)) (JStr ''hi'')) two_clients =
     \<lparr>st = two_clients, events = [Send 1 (Error ''Invalid room or user context'')],
      uncaught = None\<rparr> \<and>
   on_message example_env 1 (message_request ''r1'' (JNum (Fin 2)) (JStr ''hi'')) two_clients =
     \<lparr>st = two_clients, events = [Send 1 (Error ''Invalid room or user context'')],
      uncaught = None\<rparr> \<and>
   on_message example_env 1
     (message_request ''r1'' (JArr [JObj [(''toString'', JNull)]]) (JStr ''hi'')) two_clients =
     \<lparr>st = two_clients, events = [Send 1 (Error ''Unexpected server error'')],
      uncaught = None\<rparr>"
  using message_context_mismatch_rejected
    [of two_clients 1 "\<lparr>userId = Fin 1, roomId = ''r1''\<rparr>"
        "JObj [(''type'', JStr ''message''), (''roomId'', JStr ''r2''),
               (''user_id'', JNum (Fin 1)), (''text'', JStr ''hi'')]" example_env]
    message_context_mismatch_rejected
    [of two_clients 1 "\<lparr>userId = Fin 1, roomId = ''r1''\<rparr>"
        "JObj [(''type'', JStr ''message''), (''roomId'', JStr ''r1''),
               (''user_id'', JNum (Fin 2)), (''text'', JStr ''hi'')]" example_env]
    message_context_mismatch_rejected
    [of two_clients 1 "\<lparr>userId = Fin 1, roomId = ''r1''\<rparr>"
        "JObj [(''type'', JStr ''message''), (''roomId'', JStr ''r1''),
               (''user_id'', JArr [JObj [(''toString'', JNull)]]), (''text'', JStr ''hi'')]"
        example_env]
  by (simp add: message_request_def two_clients_def Map_get_def context_mismatch_def
      strict_eq_def Number_of_def error_reply_def send_event_def example_env_def)

text \<open>
  Claim C6. When a message frame passes the session, context and room checks (so
  \<open>Number(user_id)\<close> gave a number \<open>n\<close>, strictly equal to the session's user id) and
  \<open>prisma.chat.create\<close> rejects, the handler answers the sender with ``Failed to save
  message'' (followed by the frame of the outer \<open>catch\<close> when sending it throws); every
  send of the run goes to the sender and is an error frame, so there is neither a
  message-sent acknowledgment nor a new-message frame, and the state is unchanged.
\<close>

theorem message_persist_failure_no_broadcast:
  assumes "Map_get (activeClients s) ws = Some meta"
    and "member parsed ''type'' = JStr ''message''"
    and "Number_of (StringToNumber e) (member parsed ''user_id'') = Some n"
    and "\<not> context_mismatch (member parsed ''roomId'') n meta"
    and "findUnique e (roomId meta) = Resolved (Some rm)"
    and "create e (chat_payload e parsed n meta) = Rejected"
  shows "on_message e ws (Parsed parsed) s =
           \<lparr>st = s,
            events = [FindUnique (JStr (roomId meta)), Create (chat_payload e parsed n meta)]
                     @ error_reply e ws ''Failed to save message'',
            uncaught = None\<rparr> \<and>
         list_all (\<lambda>cf. fst cf = ws \<and> is_error (snd cf))
           (attempted (events (on_message e ws (Parsed parsed) s)))"
  using assms
  by (simp add: on_message_message message_frame_create outer_catch_reply
      attempted_error_reply)

text \<open>Witness for C6: the store of the example, except that saving a chat fails.\<close>

theorem message_persist_failure_no_broadcast_witness:
  "events (on_message (example_env\<lparr>create := \<lambda>d. Rejected\<rparr>) 1
             (message_request ''r1'' (JNum (Fin 1)) (JStr ''hi'')) two_clients) =
     [FindUnique (JStr ''r1''),
      Create \<lparr>data_message = JStr ''hi'', data_createdAt = 0, data_userId = Fin 1,
              data_roomId = ''r1''\<rparr>,
      Send 1 (Error ''Failed to save message'')]"
  using message_persist_failure_no_broadcast
    [of two_clients 1 "\<lparr>userId = Fin 1, roomId = ''r1''\<rparr>"
        "JObj [(''type'', JStr ''message''), (''roomId'', JStr ''r1''),
               (''user_id'', JNum (Fin 1)), (''text'', JStr ''hi'')]"
        "example_env\<lparr>create := \<lambda>d. Rejected\<rparr>" "Fin 1"
        "\<lparr>room_id = ''r1'', users = [\<lparr>user_id = 1\<rparr>, \<lparr>user_id = 2\<rparr>]\<rparr>"]
  by (simp add: message_request_def two_clients_def Map_get_def context_mismatch_def
      strict_eq_def Number_of_def chat_payload_def error_reply_def example_env_def)

subsection \<open>The fan-out\<close>

lemma attempted_map_send_event:
  "attempted (map (\<lambda>entry. send_event e (fst entry) f) xs) = map (\<lambda>entry. (fst entry, f)) xs"
  by (induction xs) (simp_all add: send_event_def)

lemma delivered_map_send_event:
  "delivered (map (\<lambda>entry. send_event e (fst entry) f) xs) =
     map (\<lambda>entry. (fst entry, f)) (filter (\<lambda>entry. \<not> send_throws e (fst entry) f) xs)"
  by (induction xs) (simp_all add: send_event_def)

lemma attempted_broadcast:
  "attempted (broadcast e ws r c s) =
     map (\<lambda>entry. (fst entry, NewMessage c))
       (filter (is_recipient e ws r (membersOf s r)) (activeClients s))"
  by (simp add: broadcast_def membersOf_def is_recipient_def attempted_map_send_event
      split: option.split)

lemma delivered_broadcast:
  "delivered (broadcast e ws r c s) =
     map (\<lambda>entry. (fst entry, NewMessage c))
       (filter (\<lambda>entry. \<not> send_throws e (fst entry) (NewMessage c))
         (filter (is_recipient e ws r (membersOf s r)) (activeClients s)))"
  by (simp add: broadcast_def membersOf_def is_recipient_def delivered_map_send_event
      split: option.split)

lemma Map_get_iff:
  "distinct (map fst kvs) \<Longrightarrow> Map_get kvs k = Some v \<longleftrightarrow> (k, v) \<in> set kvs"
  by (simp add: Map_get_def)

lemma broadcast_targets:
  assumes "distinct (map fst (activeClients s))"
  shows "(c', f) \<in> set (attempted (broadcast e ws r c s)) \<longleftrightarrow>
         f = NewMessage c \<and> c' \<noteq> ws \<and> readyState e c' = OPEN \<and>
         (\<exists>m. Map_get (activeClients s) c' = Some m \<and> roomId m = r \<and> userId m \<in> membersOf s r)"
proof -
  have "(c', f) \<in> set (attempted (broadcast e ws r c s)) \<longleftrightarrow>
        f = NewMessage c \<and>
        (\<exists>m. (c', m) \<in> set (activeClients s) \<and> is_recipient e ws r (membersOf s r) (c', m))"
    by (force simp: attempted_broadcast)
  then show ?thesis
    using assms by (auto simp: is_recipient_def Map_get_iff)
qed

lemma broadcast_delivered_iff:
  "(c', f) \<in> set (delivered (broadcast e ws r c s)) \<longleftrightarrow>
   (c', f) \<in> set (attempted (broadcast e ws r c s)) \<and> \<not> send_throws e c' f"
  by (auto simp: attempted_broadcast delivered_broadcast)

lemma distinct_attempted_broadcast:
  assumes "distinct (map fst (activeClients s))"
  shows "distinct (map fst (attempted (broadcast e ws r c s)))"
proof -
  have "map fst (attempted (broadcast e ws r c s)) =
        map fst (filter (is_recipient e ws r (membersOf s r)) (activeClients s))"
    by (simp add: attempted_broadcast comp_def)
  with assms show ?thesis
    by (simp add: distinct_map_filter)
qed

lemma sender_not_in_broadcast:
  "filter (\<lambda>cf. fst cf = ws) (attempted (broadcast e ws r c s)) = []"
  by (auto simp: attempted_broadcast filter_empty_conv is_recipient_def)

lemma not_rejected_broadcast: "\<not> list_ex (rejected_call e) (broadcast e' ws r c s)"
  by (auto simp: broadcast_def list_ex_iff send_event_def split: option.split)

text \<open>
  Claim C7. When the chat of a message frame has been saved (the frame passed the
  session, context and room checks, \<open>Number(user_id)\<close> being the number \<open>n\<close>), the
  run consists of the room lookup, the save, the acknowledgment to the sender and the
  fan-out. A new-message frame is sent to a connection exactly when it is not the
  sender, its \<open>readyState\<close> is open, and its session is in the message's room with a
  user id in that room's entry of \<open>roomUserMap\<close>; it is delivered exactly when,
  moreover, the send does not throw. No connection is sent the frame twice, and the
  only frame sent to the sender is the message-sent acknowledgment. The keys of
  \<open>activeClients\<close> are distinct, as those of a \<open>Map\<close> are.
\<close>

theorem message_fanout_recipients:
  assumes "distinct (map fst (activeClients s))"
    and "Map_get (activeClients s) ws = Some meta"
    and "member parsed ''type'' = JStr ''message''"
    and "Number_of (StringToNumber e) (member parsed ''user_id'') = Some n"
    and "\<not> context_mismatch (member parsed ''roomId'') n meta"
    and "findUnique e (roomId meta) = Resolved (Some rm)"
    and "create e (chat_payload e parsed n meta) = Resolved c"
  shows "events (on_message e ws (Parsed parsed) s) =
           [FindUnique (JStr (roomId meta)), Create (chat_payload e parsed n meta),
            send_event e ws (MessageSent c)] @ broadcast e ws (roomId meta) c s \<and>
         (\<forall>c'. (c', NewMessage c) \<in> set (attempted (events (on_message e ws (Parsed parsed) s)))
            \<longleftrightarrow> c' \<noteq> ws \<and> readyState e c' = OPEN \<and>
                (\<exists>m. Map_get (activeClients s) c' = Some m \<and> roomId m = roomId meta \<and>
                     userId m \<in> membersOf s (roomId meta))) \<and>
         (\<forall>c'. (c', NewMessage c) \<in> set (delivered (events (on_message e ws (Parsed parsed) s)))
            \<longleftrightarrow> (c', NewMessage c) \<in> set (attempted (events (on_message e ws (Parsed parsed) s)))
                \<and> \<not> send_throws e c' (NewMessage c)) \<and>
         distinct (map fst (attempted (broadcast e ws (roomId meta) c s))) \<and>
         filter (\<lambda>cf. fst cf = ws) (attempted (events (on_message e ws (Parsed parsed) s))) =
           [(ws, MessageSent c)]"
proof -
  let ?R = "on_message e ws (Parsed parsed) s"
  let ?b = "broadcast e ws (roomId meta) c s"
  have ev: "events ?R =
      [FindUnique (JStr (roomId meta)), Create (chat_payload e parsed n meta),
       send_event e ws (MessageSent c)] @ ?b"
    using assms by (simp add: on_message_message message_frame_create outer_catch_def)
  have att: "attempted (events ?R) = (ws, MessageSent c) # attempted ?b"
    by (simp add: ev send_event_def)
  have del: "delivered (events ?R) =
      (if send_throws e ws (MessageSent c) then [] else [(ws, MessageSent c)]) @ delivered ?b"
    by (simp add: ev send_event_def)
  have 2: "(c', NewMessage c) \<in> set (attempted (events ?R)) \<longleftrightarrow>
        c' \<noteq> ws \<and> readyState e c' = OPEN \<and>
        (\<exists>m. Map_get (activeClients s) c' = Some m \<and> roomId m = roomId meta \<and>
             userId m \<in> membersOf s (roomId meta))" for c'
    using broadcast_targets [OF assms(1), of c' "NewMessage c" e ws "roomId meta" c]
    by (simp add: att)
  have 3: "(c', NewMessage c) \<in> set (delivered (events ?R)) \<longleftrightarrow>
        (c', NewMessage c) \<in> set (attempted (events ?R)) \<and> \<not> send_throws e c' (NewMessage c)"
    for c'
    by (simp add: att del broadcast_delivered_iff)
  have 5: "filter (\<lambda>cf. fst cf = ws) (attempted (events ?R)) = [(ws, MessageSent c)]"
    by (simp add: att sender_not_in_broadcast)
  show ?thesis
    using ev 2 3 5 distinct_attempted_broadcast [OF assms(1)] by blast
qed

text \<open>
  Witness for C7, the scenario of the specification: A (connection 1, user 1) and B
  (connection 2, user 2) are in room \<open>r1\<close>; A sends ``hi'' with its user id as a
  numeric string. A gets the acknowledgment and B the new-message frame.
\<close>

theorem message_fanout_recipients_witness:
  "events (on_message example_env 1 (message_request ''r1'' (JStr ''1'') (JStr ''hi''))
             two_clients) =
     [FindUnique (JStr ''r1''),
      Create \<lparr>data_message = JStr ''hi'', data_createdAt = 0, data_userId = Fin 1,
              data_roomId = ''r1''\<rparr>,
      Send 1 (MessageSent (example_chat (JStr ''hi''))),
      Send 2 (NewMessage (example_chat (JStr ''hi'')))]"
  using message_fanout_recipients
    [of two_clients 1 "\<lparr>userId = Fin 1, roomId = ''r1''\<rparr>"
        "JObj [(''type'', JStr ''message''), (''roomId'', JStr ''r1''),
               (''user_id'', JStr ''1''), (''text'', JStr ''hi'')]" example_env "Fin 1"
        "\<lparr>room_id = ''r1'', users = [\<lparr>user_id = 1\<rparr>, \<lparr>user_id = 2\<rparr>]\<rparr>"
        "example_chat (JStr ''hi'')"]
  by (simp add: message_request_def two_clients_def Map_get_def context_mismatch_def
      strict_eq_def Number_of_def chat_payload_def example_env_def example_chat_def
      broadcast_def is_recipient_def send_event_def decimal_digits_def is_digit_def)

text \<open>
  Counterexample to C10 as stated. With a store whose message column is a string, a
  message frame without \<open>text\<close>, and one whose \<open>text\<close> is the number 5, pass the
  session, context and room checks and are handed to the store as they are, but they
  are neither persisted nor broadcast: the store rejects them and the sender gets
  ``Failed to save message''.
\<close>

theorem message_text_counterexample:
  "events (on_message string_store_env 1
             (Parsed (JObj [(''type'', JStr ''message''), (''roomId'', JStr ''r1''),
                            (''user_id'', JNum (Fin 1))])) two_clients) =
     [FindUnique (JStr ''r1''),
      Create \<lparr>data_message = JUndefined, data_createdAt = 0, data_userId = Fin 1,
              data_roomId = ''r1''\<rparr>,
      Send 1 (Error ''Failed to save message'')] \<and>
   events (on_message string_store_env 1
             (message_request ''r1'' (JNum (Fin 1)) (JNum (Fin 5))) two_clients) =
     [FindUnique (JStr ''r1''),
      Create \<lparr>data_message = JNum (Fin 5), data_createdAt = 0, data_userId = Fin 1,
              data_roomId = ''r1''\<rparr>,
      Send 1 (Error ''Failed to save message'')]"
  by (simp add: eval_defs string_store_env_def two_clients_def message_request_def
      message_frame_def context_mismatch_def chat_payload_def reply_def send_event_def)

text \<open>
  Claim C10, amended. On a message frame that passes the session, context and room
  checks, the handler does not look at \<open>text\<close>: whatever the frame holds there,
  \<open>undefined\<close> for an absent member included, is the \<open>message\<close> of the data given to
  \<open>prisma.chat.create\<close>, which is called right after the room lookup. What follows is
  decided by the store alone: when it returns a chat, that chat is acknowledged to the
  sender and fanned out; when it rejects, the sender is answered ``Failed to save
  message'' and nothing else is sent. The state is unchanged either way.
\<close>

theorem message_text_not_validated:
  assumes "Map_get (activeClients s) ws = Some meta"
    and "member parsed ''type'' = JStr ''message''"
    and "Number_of (StringToNumber e) (member parsed ''user_id'') = Some n"
    and "\<not> context_mismatch (member parsed ''roomId'') n meta"
    and "findUnique e (roomId meta) = Resolved (Some rm)"
  shows "on_message e ws (Parsed parsed) s =
           (let d = \<lparr>data_message = member parsed ''text'', data_createdAt = now e,
                     data_userId = n, data_roomId = roomId meta\<rparr>
            in (case create e d of
                  Rejected \<Rightarrow>
                    \<lparr>st = s,
                     events = [FindUnique (JStr (roomId meta)), Create d]
                              @ error_reply e ws ''Failed to save message'',
                     uncaught = None\<rparr>
                | Resolved c \<Rightarrow>
                    \<lparr>st = s,
                     events = [FindUnique (JStr (roomId meta)), Create d,
                               send_event e ws (MessageSent c)]
                              @ broadcast e ws (roomId meta) c s,
                     uncaught = None\<rparr>))"
proof -
  let ?d = "chat_payload e parsed n meta"
  have d: "?d = \<lparr>data_message = member parsed ''text'', data_createdAt = now e,
                 data_userId = n, data_roomId = roomId meta\<rparr>"
    by (simp add: chat_payload_def)
  have R: "on_message e ws (Parsed parsed) s =
      outer_catch e ws
        (case create e ?d of
           Rejected \<Rightarrow>
             reply e ws s [FindUnique (JStr (roomId meta)), Create ?d] ''Failed to save message''
         | Resolved c \<Rightarrow>
             \<lparr>st = s,
              events = [FindUnique (JStr (roomId meta)), Create ?d,
                        send_event e ws (MessageSent c)] @ broadcast e ws (roomId meta) c s,
              uncaught = None\<rparr>)"
    using assms by (simp add: on_message_message message_frame_create)
  show ?thesis
  proof (cases "create e ?d")
    case Rejected
    then show ?thesis
      unfolding R by (simp add: outer_catch_reply d [symmetric] Let_def)
  next
    case (Resolved c)
    then show ?thesis
      unfolding R by (simp add: outer_catch_def d [symmetric] Let_def)
  qed
qed

text \<open>
  Witness for C10: a message frame with no \<open>text\<close> member, first with the store that
  saves whatever it is given, then with the store whose message column is a string.
\<close>

theorem message_text_not_validated_witness:
  "on_message example_env 1
     (Parsed (JObj [(''type'', JStr ''message''), (''roomId'', JStr ''r1''),
                    (''user_id'', JNum (Fin 1))])) two_clients =
     \<lparr>st = two_clients,
      events =
        [FindUnique (JStr ''r1''),
         Create \<lparr>data_message = JUndefined, data_createdAt = 0, data_userId = Fin 1,
                 data_roomId = ''r1''\<rparr>,
         Send 1 (MessageSent (example_chat JUndefined)),
         Send 2 (NewMessage (example_chat JUndefined))],
      uncaught = None\<rparr> \<and>
   on_message string_store_env 1
     (Parsed (JObj [(''type'', JStr ''message''), (''roomId'', JStr ''r1''),
                    (''user_id'', JNum (Fin 1))])) two_clients =
     \<lparr>st = two_clients,
      events =
        [FindUnique (JStr ''r1''),
         Create \<lparr>data_message = JUndefined, data_createdAt = 0, data_userId = Fin 1,
                 data_roomId = ''r1''\<rparr>,
         Send 1 (Error ''Failed to save message'')],
      uncaught = None\<rparr>"
  using message_text_not_validated
    [of two_clients 1 "\<lparr>userId = Fin 1, roomId = ''r1''\<rparr>"
        "JObj [(''type'', JStr ''message''), (''roomId'', JStr ''r1''),
               (''user_id'', JNum (Fin 1))]" example_env "Fin 1"
        "\<lparr>room_id = ''r1'', users = [\<lparr>user_id = 1\<rparr>, \<lparr>user_id = 2\<rparr>]\<rparr>"]
    message_text_not_validated
    [of two_clients 1 "\<lparr>userId = Fin 1, roomId = ''r1''\<rparr>"
        "JObj [(''type'', JStr ''message''), (''roomId'', JStr ''r1''),
               (''user_id'', JNum (Fin 1))]" string_store_env "Fin 1"
        "\<lparr>room_id = ''r1'', users = [\<lparr>user_id = 1\<rparr>, \<lparr>user_id = 2\<rparr>]\<rparr>"]
  by (simp add: two_clients_def Map_get_def context_mismatch_def strict_eq_def Number_of_def
      string_store_env_def example_env_def example_chat_def broadcast_def is_recipient_def
      send_event_def error_reply_def)

section \<open>The dispatcher\<close>

text \<open>
  Counterexample to C8 as stated. The frame \<open>null\<close> is well-formed JSON and has no
  \<open>type\<close>, yet the handler replies: reading \<open>parsed.type\<close> throws, and the outer
  \<open>catch\<close> sends an error frame.
\<close>

theorem null_frame_gets_reply:
  "delivered (events (on_message example_env 1 (Parsed JNull) init)) =
     [(1, Error ''Unexpected server error'')]"
  by (simp add: on_message_def try_body_def outer_catch_thrown send_event_def example_env_def)

text \<open>
  Claim C8, amended. A parsed frame other than \<open>null\<close> whose \<open>type\<close> is neither
  \<open>register\<close> nor \<open>message\<close> (an absent \<open>type\<close> included) is ignored: nothing is
  sent, the store is not called and the state is unchanged. The frame \<open>null\<close> changes
  nothing either, but is answered with the error frame of the outer \<open>catch\<close>.
\<close>

theorem unknown_type_ignored_unless_null:
  "(parsed \<noteq> JNull \<and> parsed \<noteq> JUndefined \<and>
    member parsed ''type'' \<noteq> JStr ''register'' \<and> member parsed ''type'' \<noteq> JStr ''message''
      \<longrightarrow> on_message e ws (Parsed parsed) s = \<lparr>st = s, events = [], uncaught = None\<rparr>) \<and>
   on_message e ws (Parsed JNull) s =
     \<lparr>st = s, events = [send_event e ws (Error ''Unexpected server error'')], uncaught = None\<rparr>"
  by (simp add: on_message_def try_body_def outer_catch_def thrown_def)

text \<open>Witness for C8: a frame of type \<open>ping\<close> and a frame without \<open>type\<close>.\<close>

theorem unknown_type_ignored_unless_null_witness:
  "on_message example_env 1 (Parsed (JObj [(''type'', JStr ''ping'')])) two_clients =
     \<lparr>st = two_clients, events = [], uncaught = None\<rparr> \<and>
   on_message example_env 1 (Parsed (JObj [(''roomId'', JStr ''r1'')])) two_clients =
     \<lparr>st = two_clients, events = [], uncaught = None\<rparr>"
  using unknown_type_ignored_unless_null
      [of "JObj [(''type'', JStr ''ping'')]" example_env 1 two_clients]
    unknown_type_ignored_unless_null
      [of "JObj [(''roomId'', JStr ''r1'')]" example_env 1 two_clients]
  by simp

subsection \<open>The shape of a run\<close>

lemma register_frame_shape:
  "(\<exists>evs msg. register_frame e ws parsed s = reply e ws s evs msg \<and> delivered evs = []) \<or>
   register_frame e ws parsed s = thrown s [] TypeError \<or>
   (uncaught (register_frame e ws parsed s) = None \<and>
    \<not> store_failed e (events (register_frame e ws parsed s)))"
  by (auto simp: register_frame_def Let_def store_failed_def send_event_def
      split: promise.split option.split jsval.split)

lemma message_frame_shape:
  "(\<exists>evs msg. message_frame e ws parsed s = reply e ws s evs msg \<and> delivered evs = []) \<or>
   message_frame e ws parsed s = thrown s [] TypeError \<or>
   (uncaught (message_frame e ws parsed s) = None \<and>
    \<not> store_failed e (events (message_frame e ws parsed s)))"
proof (cases "Map_get (activeClients s) ws")
  case None
  then show ?thesis by (auto simp: message_frame_def)
next
  case (Some meta)
  note session = this
  show ?thesis
  proof (cases "Number_of (StringToNumber e) (member parsed ''user_id'')")
    case None
    with session show ?thesis by (simp add: message_frame_throw)
  next
    case (Some n)
    note num = this
    show ?thesis
    proof (cases "context_mismatch (member parsed ''roomId'') n meta")
      case True
      with session num show ?thesis by (auto simp: message_frame_def)
    next
      case False
      note rid = matching_roomId [OF False]
      show ?thesis
      proof (cases "findUnique e (roomId meta)")
        case Rejected
        with session num False rid show ?thesis
          by (auto simp: message_frame_def prisma_roomId_findUnique_def)
      next
        case (Resolved found)
        show ?thesis
        proof (cases found)
          case None
          with session num False rid Resolved show ?thesis
            by (auto simp: message_frame_def prisma_roomId_findUnique_def)
        next
          case (Some rm)
          with Resolved have fu: "findUnique e (roomId meta) = Resolved (Some rm)" by simp
          note path = message_frame_create [OF session num False fu]
          show ?thesis
          proof (cases "create e (chat_payload e parsed n meta)")
            case Rejected
            then show ?thesis
              by (auto simp: path)
          next
            case (Resolved c)
            then show ?thesis
              by (simp add: path store_failed_def prisma_roomId_findUnique_def fu
                  send_event_def not_rejected_broadcast)
          qed
        qed
      qed
    qed
  qed
qed

lemma try_body_shape:
  "(\<exists>evs msg. try_body e ws fr s = reply e ws s evs msg \<and> delivered evs = []) \<or>
   try_body e ws fr s = thrown s [] TypeError \<or>
   (fr \<noteq> Unparseable \<and> uncaught (try_body e ws fr s) = None \<and>
    \<not> store_failed e (events (try_body e ws fr s)))"
proof (cases fr)
  case Unparseable
  then show ?thesis by (auto simp: try_body_def)
next
  case (Parsed parsed)
  consider (null) "parsed = JNull \<or> parsed = JUndefined"
    | (reg) "parsed \<noteq> JNull" "parsed \<noteq> JUndefined" "member parsed ''type'' = JStr ''register''"
    | (msg) "parsed \<noteq> JNull" "parsed \<noteq> JUndefined" "member parsed ''type'' = JStr ''message''"
    | (other) "parsed \<noteq> JNull" "parsed \<noteq> JUndefined"
        "member parsed ''type'' \<noteq> JStr ''register''" "member parsed ''type'' \<noteq> JStr ''message''"
    by blast
  then show ?thesis
  proof cases
    case null
    with Parsed show ?thesis by (auto simp: try_body_def)
  next
    case reg
    with Parsed register_frame_shape [of e ws parsed s] show ?thesis
      by (auto simp: try_body_def)
  next
    case msg
    with Parsed message_frame_shape [of e ws parsed s] show ?thesis
      by (auto simp: try_body_def)
  next
    case other
    with Parsed show ?thesis by (simp add: try_body_def store_failed_def)
  qed
qed

text \<open>
  The handler of \<open>index.ts\<close> lets no exception leave it. When the frame does not
  parse, when a call to the store is rejected, or when an exception is thrown inside
  the \<open>try\<close> (by \<open>parsed.type\<close> on \<open>null\<close>, by \<open>Number\<close>, or by an unguarded
  send), the state is unchanged, so the session of the connection is as before, and at
  most one frame is delivered, an error frame to the connection the frame came from;
  exactly one is delivered whenever the send of the outer \<open>catch\<close> on that connection
  does not throw.
\<close>

lemma on_message_never_escapes:
  "uncaught (on_message e ws fr s) = None \<and>
   (fr = Unparseable \<or> uncaught (try_body e ws fr s) \<noteq> None \<or>
    store_failed e (events (on_message e ws fr s)) \<longrightarrow>
      st (on_message e ws fr s) = s \<and>
      (delivered (events (on_message e ws fr s)) = [] \<or>
       (\<exists>msg. delivered (events (on_message e ws fr s)) = [(ws, Error msg)])) \<and>
      (\<not> send_throws e ws (Error ''Unexpected server error'') \<longrightarrow>
         (\<exists>msg. delivered (events (on_message e ws fr s)) = [(ws, Error msg)])))"
proof -
  let ?R = "on_message e ws fr s"
  from try_body_shape [of e ws fr s]
  consider (reply) evs msg where "try_body e ws fr s = reply e ws s evs msg" "delivered evs = []"
    | (type_error) "try_body e ws fr s = thrown s [] TypeError"
    | (returned) "fr \<noteq> Unparseable" "uncaught (try_body e ws fr s) = None"
        "\<not> store_failed e (events (try_body e ws fr s))"
    by (elim disjE exE conjE)
  then show ?thesis
  proof cases
    case reply
    then have "?R = \<lparr>st = s, events = evs @ error_reply e ws msg, uncaught = None\<rparr>"
      by (simp add: on_message_def outer_catch_reply)
    with reply(2) show ?thesis
      by (simp add: delivered_append delivered_error_reply)
  next
    case type_error
    then have "?R = \<lparr>st = s, events = [send_event e ws (Error ''Unexpected server error'')],
                     uncaught = None\<rparr>"
      by (simp add: on_message_def outer_catch_thrown)
    then show ?thesis
      by (simp add: send_event_def)
  next
    case returned
    then have "?R = try_body e ws fr s"
      by (simp add: on_message_def outer_catch_def)
    with returned show ?thesis by simp
  qed
qed

lemma on_message_never_escapes_example:
  "uncaught (on_message example_env 1 Unparseable two_clients) = None \<and>
   st (on_message example_env 1 Unparseable two_clients) = two_clients \<and>
   (\<exists>msg. delivered (events (on_message example_env 1 Unparseable two_clients)) =
      [(1, Error msg)]) \<and>
   uncaught (on_message broken_send_env 1
      (message_request ''r1'' (JObj [(''toString'', JNull)]) (JStr ''hi'')) two_clients) = None"
  using on_message_never_escapes [of example_env 1 Unparseable two_clients]
    on_message_never_escapes [of broken_send_env 1
      "message_request ''r1'' (JObj [(''toString'', JNull)]) (JStr ''hi'')" two_clients]
  by (simp add: example_env_def)

section \<open>The room index under re-registration and close\<close>

lemma register_commit_keeps_members:
  "membersOf s r \<subseteq> membersOf (register_commit ws u rid s) r"
  by (auto simp: membersOf_def register_commit_def split: option.splits)

lemma map_of_Map_set: "map_of (Map_set kvs k v) k = Some v"
  by (induction kvs) auto

lemma register_commit_replaces_session:
  "Map_get (activeClients (register_commit ws u rid s)) ws = Some \<lparr>userId = u, roomId = rid\<rparr>"
  by (simp add: register_commit_def Map_get_def map_of_Map_set)

text \<open>
  Where the index does stay right, one room at a time: when a connection without a
  session registers, and when a connection closes whose session no other live
  connection shares. The two sequences of C2 below are the two cases left out.
\<close>

lemma Map_set_fresh: "map_of kvs k = None \<Longrightarrow> Map_set kvs k v = kvs @ [(k, v)]"
  by (induction kvs) (auto split: if_splits)

lemma membersOf_register_commit:
  "membersOf (register_commit ws u rid s) r =
     (if r = rid then insert u (membersOf s r) else membersOf s r)"
  by (simp add: membersOf_def register_commit_def split: option.split)

lemma fresh_register_keeps_index:
  assumes "Map_get (activeClients s) ws = None"
    and "membersOf s r = live_users s r"
  shows "membersOf (register_commit ws u rid s) r = live_users (register_commit ws u rid s) r"
proof -
  have "activeClients (register_commit ws u rid s) =
        activeClients s @ [(ws, \<lparr>userId = u, roomId = rid\<rparr>)]"
    using assms(1) by (simp add: register_commit_def Map_get_def Map_set_fresh)
  then have "live_users (register_commit ws u rid s) r =
        (if r = rid then insert u (live_users s r) else live_users s r)"
    by (auto simp: live_users_def)
  with assms(2) show ?thesis
    by (cases "r = rid") (simp_all add: membersOf_register_commit)
qed

lemma close_keeps_index:
  assumes "distinct (map fst (activeClients s))"
    and "membersOf s r = live_users s r"
    and "\<And>c m. (c, m) \<in> set (activeClients s) \<Longrightarrow> c \<noteq> ws \<Longrightarrow>
           Map_get (activeClients s) ws \<noteq> Some m"
  shows "membersOf (on_close ws s) r = live_users (on_close ws s) r"
proof (cases "Map_get (activeClients s) ws")
  case None
  then have "ws \<notin> fst ` set (activeClients s)"
    by (simp add: Map_get_def map_of_eq_None_iff)
  then have "Map_delete (activeClients s) ws = activeClients s"
    by (auto simp: Map_delete_def filter_id_conv)
  with None assms(2) show ?thesis
    by (simp add: on_close_def membersOf_def live_users_def)
next
  case (Some meta)
  then have mem: "(ws, meta) \<in> set (activeClients s)"
    using assms(1) by (simp add: Map_get_def)
  have others: "m \<noteq> meta" if "(c, m) \<in> set (activeClients s)" "c \<noteq> ws" for c m
    using assms(3) [OF that] Some by simp
  have only: "m = meta" if "(ws, m) \<in> set (activeClients s)" for m
    using that mem assms(1) by (meson eq_key_imp_eq_value)
  have live: "live_users (on_close ws s) r =
      (if r = roomId meta then live_users s r - {userId meta} else live_users s r)"
  proof (cases "r = roomId meta")
    case True
    have "live_users (on_close ws s) r = live_users s r - {userId meta}"
    proof (intro set_eqI iffI)
      fix u assume "u \<in> live_users (on_close ws s) r"
      then obtain c m where cm: "(c, m) \<in> set (activeClients s)" "c \<noteq> ws" "roomId m = r"
          "u = userId m"
        by (auto simp: live_users_def on_close_def Map_delete_def)
      with others [OF cm(1,2)] True have "userId m \<noteq> userId meta"
        by (cases m, cases meta) auto
      with cm show "u \<in> live_users s r - {userId meta}"
        by (force simp: live_users_def)
    next
      fix u assume "u \<in> live_users s r - {userId meta}"
      then obtain c m where cm: "(c, m) \<in> set (activeClients s)" "roomId m = r"
          "u = userId m" "u \<noteq> userId meta"
        by (auto simp: live_users_def)
      then have "c \<noteq> ws" using only by auto
      with cm show "u \<in> live_users (on_close ws s) r"
        by (force simp: live_users_def on_close_def Map_delete_def)
    qed
    with True show ?thesis by simp
  next
    case False
    have "live_users (on_close ws s) r = live_users s r"
    proof (intro set_eqI iffI)
      fix u assume "u \<in> live_users (on_close ws s) r"
      then show "u \<in> live_users s r"
        by (auto simp: live_users_def on_close_def Map_delete_def)
    next
      fix u assume "u \<in> live_users s r"
      then obtain c m where cm: "(c, m) \<in> set (activeClients s)" "roomId m = r"
          "u = userId m"
        by (auto simp: live_users_def)
      with False only have "c \<noteq> ws" by auto
      with cm show "u \<in> live_users (on_close ws s) r"
        by (force simp: live_users_def on_close_def Map_delete_def)
    qed
    with False show ?thesis by simp
  qed
  have idx: "membersOf (on_close ws s) r =
      (if r = roomId meta then membersOf s r - {userId meta} else membersOf s r)"
    using Some by (auto simp: on_close_def membersOf_def split: option.splits)
  show ?thesis
    using live idx assms(2) by (cases "r = roomId meta") simp_all
qed

text \<open>
  Claim C1, on the code. Connection 1 registers as user 1 in room \<open>r1\<close> and then as
  user 2 in room \<open>r2\<close>; both registrations succeed. Its session is then the second
  one, but user 1 is still in the entry of \<open>r1\<close> in \<open>roomUserMap\<close>, although no live
  session is in \<open>r1\<close>: the old pair was not removed.
\<close>

theorem reregister_keeps_old_membership:
  "Map_get (activeClients (run
      [Message example_env 1 (register_request ''r1'' (JNum (Fin 1)))])) 1 =
     Some \<lparr>userId = Fin 1, roomId = ''r1''\<rparr> \<and>
   Map_get (activeClients (run
      [Message example_env 1 (register_request ''r1'' (JNum (Fin 1))),
       Message example_env 1 (register_request ''r2'' (JNum (Fin 2)))])) 1 =
     Some \<lparr>userId = Fin 2, roomId = ''r2''\<rparr> \<and>
   roomUserMap (run
      [Message example_env 1 (register_request ''r1'' (JNum (Fin 1))),
       Message example_env 1 (register_request ''r2'' (JNum (Fin 2)))]) ''r1'' =
     Some {Fin 1} \<and>
   live_users (run
      [Message example_env 1 (register_request ''r1'' (JNum (Fin 1))),
       Message example_env 1 (register_request ''r2'' (JNum (Fin 2)))]) ''r1'' = {}"
  by (simp add: eval_defs live_users_def)

text \<open>
  Claim C2, on the code. After the re-registration above the index of \<open>r1\<close> holds
  user 1 while no live session is in \<open>r1\<close>. After connections 1 and 2 both register
  as user 1 in \<open>r1\<close> and connection 1 closes, the index of \<open>r1\<close> is empty while
  connection 2 still has its session there.
\<close>

theorem room_index_inconsistent:
  "membersOf (run
      [Message example_env 1 (register_request ''r1'' (JNum (Fin 1))),
       Message example_env 1 (register_request ''r2'' (JNum (Fin 2)))]) ''r1'' = {Fin 1} \<and>
   live_users (run
      [Message example_env 1 (register_request ''r1'' (JNum (Fin 1))),
       Message example_env 1 (register_request ''r2'' (JNum (Fin 2)))]) ''r1'' = {} \<and>
   membersOf (run
      [Message example_env 1 (register_request ''r1'' (JNum (Fin 1))),
       Message example_env 2 (register_request ''r1'' (JNum (Fin 1))),
       Close 1]) ''r1'' = {} \<and>
   live_users (run
      [Message example_env 1 (register_request ''r1'' (JNum (Fin 1))),
       Message example_env 2 (register_request ''r1'' (JNum (Fin 1))),
       Close 1]) ''r1'' = {Fin 1}"
  by (simp add: eval_defs live_users_def membersOf_def)

section \<open>The earlier revision: an exception can leave the handler\<close>



lemma v0_escapes_iff:
  "uncaught (on_message_v0 e ws fr s) \<noteq> None \<longleftrightarrow>
   uncaught (try_body_v0 e ws fr s) \<noteq> None \<and> send_throws e ws (Error ''Server error'')"
  by (auto simp: on_message_v0_def outer_catch_v0_def split: option.splits)


end
